theory Spec2Isabelle
  imports Complex_Main
begin

section \<open>JavaScript values used by index.js\<close>

subsection \<open>Numbers\<close>

text \<open>
  A JavaScript number is an IEEE 754 binary64 value. A finite nonzero value and the
  positive zero are \<open>Num q\<close> with \<open>q\<close> the exact rational value; the negative zero, the two
  infinities and NaN are constructors of their own. The operators \<open>+\<close> and \<open>*\<close> compute
  the exact rational result and round it to the nearest binary64 value, ties to even
  (ECMAScript, "the Number value for x").
\<close>

datatype jsnum = NaN | PosInf | NegInf | NegZero | Num rat

text \<open>Number of binary digits of a positive integer; 0 for the others.\<close>

function bit_length :: "int \<Rightarrow> int" where
  "bit_length n = (if n \<le> 0 then 0 else 1 + bit_length (n div 2))"
  by pat_completeness auto
termination
  by (relation "measure nat") auto

declare bit_length.simps [simp del]

text \<open>For \<open>q > 0\<close>: the integer \<open>k\<close> with \<open>2^k \<le> q < 2^(k+1)\<close>.\<close>

definition floor_log2 :: "rat \<Rightarrow> int" where
  "floor_log2 q =
     (if 1 \<le> q then bit_length \<lfloor>q\<rfloor> - 1
      else - bit_length (\<lceil>1 / q\<rceil> - 1))"

definition pow2 :: "int \<Rightarrow> rat" where
  "pow2 e = (if 0 \<le> e then 2 ^ nat e else 1 / 2 ^ nat (- e))"

definition round_half_even :: "rat \<Rightarrow> int" where
  "round_half_even q =
     (let f = \<lfloor>q\<rfloor>; d = q - of_int f
      in if d < 1 / 2 then f
         else if 1 / 2 < d then f + 1
         else if even f then f else f + 1)"

text \<open>
  The Number value for a rational \<open>q\<close>: 53 significant bits, the exponent of the last
  bit at least \<open>-1074\<close>; a magnitude that rounds to \<open>2^1024\<close> becomes an infinity, and a
  zero result keeps the sign of \<open>q\<close>.
\<close>

definition round_double :: "rat \<Rightarrow> jsnum" where
  "round_double q =
     (if q = 0 then Num 0
      else
        let e = max (floor_log2 \<bar>q\<bar> - 52) (- 1074);
            r = of_int (round_half_even (\<bar>q\<bar> / pow2 e)) * pow2 e
        in if 2 ^ 1024 \<le> r then (if q < 0 then NegInf else PosInf)
           else if r = 0 then (if q < 0 then NegZero else Num 0)
           else Num (if q < 0 then - r else r))"

fun is_negative :: "jsnum \<Rightarrow> bool" where
  "is_negative NegInf = True"
| "is_negative NegZero = True"
| "is_negative (Num q) = (q < 0)"
| "is_negative _ = False"

fun is_infinite :: "jsnum \<Rightarrow> bool" where
  "is_infinite PosInf = True"
| "is_infinite NegInf = True"
| "is_infinite _ = False"

fun is_zero :: "jsnum \<Rightarrow> bool" where
  "is_zero NegZero = True"
| "is_zero (Num q) = (q = 0)"
| "is_zero _ = False"

text \<open>The mathematical value of a finite number (both zeros are 0).\<close>

fun real_value :: "jsnum \<Rightarrow> rat" where
  "real_value (Num q) = q"
| "real_value _ = 0"

text \<open>\<open>x + y\<close> on two numbers (ECMAScript Number::add).\<close>

definition js_add :: "jsnum \<Rightarrow> jsnum \<Rightarrow> jsnum" where
  "js_add x y =
     (if x = NaN \<or> y = NaN then NaN
      else if is_infinite x \<and> is_infinite y then (if x = y then x else NaN)
      else if is_infinite x then x
      else if is_infinite y then y
      else if x = NegZero \<and> y = NegZero then NegZero
      else round_double (real_value x + real_value y))"

text \<open>\<open>x * y\<close> on two numbers (ECMAScript Number::multiply).\<close>

definition js_mul :: "jsnum \<Rightarrow> jsnum \<Rightarrow> jsnum" where
  "js_mul x y =
     (if x = NaN \<or> y = NaN then NaN
      else if (is_infinite x \<and> is_zero y) \<or> (is_zero x \<and> is_infinite y) then NaN
      else if is_infinite x \<or> is_infinite y then
        (if is_negative x \<noteq> is_negative y then NegInf else PosInf)
      else if is_zero x \<or> is_zero y then
        (if is_negative x \<noteq> is_negative y then NegZero else Num 0)
      else round_double (real_value x * real_value y))"

text \<open>
  An operand of \<open>+\<close> or \<open>*\<close> that is \<open>undefined\<close> (a destructured property that is
  absent) is converted to NaN.
\<close>

fun to_number :: "jsnum option \<Rightarrow> jsnum" where
  "to_number None = NaN"
| "to_number (Some n) = n"

subsection \<open>Values\<close>

text \<open>
  The values that arrive as the arguments of a tool call are the values of JSON. An
  object is the list of its own properties; a property is read with \<open>map_of\<close>, and an
  absent property reads as \<open>undefined\<close>, here \<open>None\<close>.
\<close>

datatype jsval =
    JNull
  | JBool bool
  | JNum jsnum
  | JStr string
  | JArr "jsval list"
  | JObj "(string \<times> jsval) list"

text \<open>
  \<open>JSON.stringify\<close> on such a value. The text is kept as the value that it denotes, the
  one \<open>JSON.parse\<close> gives back: NaN and the infinities print as \<open>null\<close>, the negative zero
  prints as \<open>0\<close>, and every other value prints as itself.
\<close>

primrec JSON_stringify :: "jsval \<Rightarrow> jsval" where
  "JSON_stringify JNull = JNull"
| "JSON_stringify (JBool b) = JBool b"
| "JSON_stringify (JNum n) =
     (if n = NaN \<or> is_infinite n then JNull
      else if n = NegZero then JNum (Num 0)
      else JNum n)"
| "JSON_stringify (JStr s) = JStr s"
| "JSON_stringify (JArr vs) = JArr (map JSON_stringify vs)"
| "JSON_stringify (JObj kvs) = JObj (map (map_prod id JSON_stringify) kvs)"

text \<open>
  What the script can raise while it invokes the tools: a TypeError, the exception of a
  tool whose input does not parse, with the JSON text of that input, and whatever the
  function of a tool throws.
\<close>

datatype js_error =
    TypeError
  | ToolInputParsingException jsval
  | Thrown jsval

section \<open>The schema: \<open>z.object({ a: z.number(), b: z.number() })\<close>\<close>

text \<open>
  zod reports a value of the wrong type as an issue \<open>invalid_type\<close> with the path of
  the property, the type expected and the type received. \<open>z.number()\<close> accepts a number
  other than NaN and converts nothing: a string of digits is a string. \<open>z.object\<close>
  parses each property of its shape, collects the issues of all of them, and by default
  returns an object with the properties of the shape only: a property of the input that
  the shape does not declare is left out, with no issue. (The issue \<open>unrecognized_keys\<close>
  is reported by an object schema made \<open>strict\<close>, which this one is not.)
\<close>

datatype zod_parsed_type =
  ZUndefined | ZNull | ZBoolean | ZNumber | ZNan | ZString | ZArray | ZObject

fun getParsedType :: "jsval option \<Rightarrow> zod_parsed_type" where
  "getParsedType None = ZUndefined"
| "getParsedType (Some JNull) = ZNull"
| "getParsedType (Some (JBool _)) = ZBoolean"
| "getParsedType (Some (JNum n)) = (if n = NaN then ZNan else ZNumber)"
| "getParsedType (Some (JStr _)) = ZString"
| "getParsedType (Some (JArr _)) = ZArray"
| "getParsedType (Some (JObj _)) = ZObject"

datatype zod_issue =
    InvalidType (path: "string list") (expected: zod_parsed_type) (received: zod_parsed_type)
  | UnrecognizedKeys (path: "string list") (keys: "string list")

datatype zod_number = ZodNumber (description_of: "string option")

definition z_number :: zod_number where
  "z_number = ZodNumber None"

fun describe :: "zod_number \<Rightarrow> string \<Rightarrow> zod_number" where
  "describe (ZodNumber _) d = ZodNumber (Some d)"

type_synonym zod_object = "(string \<times> zod_number) list"

definition z_object :: "(string \<times> zod_number) list \<Rightarrow> zod_object" where
  "z_object shape = shape"

fun parse_number :: "string list \<Rightarrow> jsval option \<Rightarrow> zod_issue list + jsnum" where
  "parse_number p (Some (JNum n)) =
     (if n = NaN then Inl [InvalidType p ZNumber ZNan] else Inr n)"
| "parse_number p v = Inl [InvalidType p ZNumber (getParsedType v)]"

fun parse_shape ::
  "zod_object \<Rightarrow> (string \<times> jsval) list \<Rightarrow> zod_issue list \<times> (string \<times> jsnum) list" where
  "parse_shape [] kvs = ([], [])"
| "parse_shape ((k, s) # shape) kvs =
     (let (issues, out) = parse_shape shape kvs
      in case parse_number [k] (map_of kvs k) of
           Inl e \<Rightarrow> (e @ issues, out)
         | Inr n \<Rightarrow> (issues, (k, n) # out))"

fun parse :: "zod_object \<Rightarrow> jsval \<Rightarrow> zod_issue list + (string \<times> jsnum) list" where
  "parse shape (JObj kvs) =
     (let (issues, out) = parse_shape shape kvs
      in if issues = [] then Inr out else Inl issues)"
| "parse shape v = Inl [InvalidType [] ZObject (getParsedType (Some v))]"

definition calculationSchema :: zod_object where
  "calculationSchema =
     z_object [(''a'', describe z_number ''first number''),
               (''b'', describe z_number ''second number'')]"

section \<open>The tools\<close>

text \<open>
  \<open>tool(func, {name, description, schema})\<close> makes a structured tool. Its \<open>invoke\<close>
  parses the input with the schema; an input that does not parse raises
  \<open>ToolInputParsingException\<close>, which records the JSON text of the input and not the
  issues; otherwise \<open>func\<close> runs on the parsed object, and what it returns or throws is
  what \<open>invoke\<close> returns or throws.

  This is \<open>invoke\<close> on a plain object of arguments, and \<open>plain_args\<close> says which inputs
  these are. An input that itself has a property \<open>type\<close> equal to "tool_call" is read by
  the library as a whole tool call: it parses the property \<open>args\<close> of the input instead
  and may answer with a message object. That branch is not described here, and every
  statement below about a call on arbitrary arguments assumes \<open>plain_args\<close>.
\<close>

record tool =
  name :: string
  description :: string
  schema :: zod_object
  func :: "(string \<times> jsnum) list \<Rightarrow> js_error + jsval"

definition tool ::
  "((string \<times> jsnum) list \<Rightarrow> js_error + jsval) \<Rightarrow> string \<Rightarrow> string \<Rightarrow> zod_object \<Rightarrow> tool" where
  "tool f n d s = \<lparr>name = n, description = d, schema = s, func = f\<rparr>"

definition invoke :: "tool \<Rightarrow> jsval \<Rightarrow> js_error + jsval" where
  "invoke t input =
     (case parse (schema t) input of
        Inl issues \<Rightarrow> Inl (ToolInputParsingException (JSON_stringify input))
      | Inr parsed \<Rightarrow> func t parsed)"

fun plain_args :: "jsval \<Rightarrow> bool" where
  "plain_args (JObj kvs) = (map_of kvs ''type'' \<noteq> Some (JStr ''tool_call''))"
| "plain_args _ = True"

text \<open>\<open>async ({ a, b }) => { return a + b }\<close>\<close>

definition additionTool :: tool where
  "additionTool =
     tool (\<lambda>input. Inr (JNum (js_add (to_number (map_of input ''a''))
                                      (to_number (map_of input ''b'')))))
       ''addition'' ''Add numbers.'' calculationSchema"

text \<open>\<open>async ({ a, b }) => { return a * b }\<close>\<close>

definition multiplicationTool :: tool where
  "multiplicationTool =
     tool (\<lambda>input. Inr (JNum (js_mul (to_number (map_of input ''a''))
                                      (to_number (map_of input ''b'')))))
       ''multiplication'' ''Multiply numbers.'' calculationSchema"

section \<open>The tools bound to the model, and the mapping from names to tools\<close>

text \<open>
  \<open>bindTools\<close> sends the model one entry per tool of the array, in the order of the
  array: the name, the description, and the parameters as a JSON schema (each property
  with its type and description, all of them required).
\<close>

record catalog_property =
  property_name :: string
  property_type :: string
  property_description :: "string option"

record catalog_entry =
  entry_name :: string
  entry_description :: string
  properties :: "catalog_property list"
  required :: "string list"

definition entry_of :: "tool \<Rightarrow> catalog_entry" where
  "entry_of t =
     \<lparr>entry_name = name t,
      entry_description = description t,
      properties =
        map (\<lambda>(k, s). \<lparr>property_name = k, property_type = ''number'',
                        property_description = description_of s\<rparr>) (schema t),
      required = map fst (schema t)\<rparr>"

definition bindTools :: "tool list \<Rightarrow> catalog_entry list" where
  "bindTools tools = map entry_of tools"

definition llmWithTools :: "catalog_entry list" where
  "llmWithTools = bindTools [additionTool, multiplicationTool]"

text \<open>
  \<open>let toolMapping = { "addition": additionTool, "multiplication": multiplicationTool }\<close>:
  an object with these two own properties, and no other.
\<close>

type_synonym tool_object = "string \<rightharpoonup> tool"

definition toolMapping :: tool_object where
  "toolMapping = [''addition'' \<mapsto> additionTool, ''multiplication'' \<mapsto> multiplicationTool]"

section \<open>The two loops over the tool calls\<close>

datatype tool_call = ToolCall (call_name: string) (args: jsval)

text \<open>A line of the console: the values given to \<open>console.log\<close> after the label.\<close>

datatype console_line =
    ToolLine string jsval
  | ResultLine string jsval jsval

text \<open>
  \<open>for (let toolCall of llmOutput.tool_calls) console.log("Tool:", toolCall.name,
  "Args:", toolCall.args)\<close>
\<close>

fun detected_tools :: "tool_call list \<Rightarrow> console_line list" where
  "detected_tools [] = []"
| "detected_tools (toolCall # rest) =
     ToolLine (call_name toolCall) (args toolCall) # detected_tools rest"

text \<open>
  The body of the second loop up to the \<open>await\<close>:
  \<open>toolMapping[toolCall.name].invoke(toolCall.args)\<close>. A name that is not an own
  property of the mapping reads as \<open>undefined\<close> or as a member inherited from
  \<open>Object.prototype\<close>; neither has a method \<open>invoke\<close>, and the call raises a TypeError.
\<close>

definition call_tool :: "tool_object \<Rightarrow> tool_call \<Rightarrow> js_error + jsval" where
  "call_tool mapping toolCall =
     (case mapping (call_name toolCall) of
        None \<Rightarrow> Inl TypeError
      | Some functionToCall \<Rightarrow> invoke functionToCall (args toolCall))"

text \<open>
  The second loop. Nothing catches what a call raises: the loop ends there, with the
  lines printed so far. The result is the lines printed and the error raised, if any.
\<close>

fun invoke_tools :: "tool_object \<Rightarrow> tool_call list \<Rightarrow> console_line list \<times> js_error option" where
  "invoke_tools mapping [] = ([], None)"
| "invoke_tools mapping (toolCall # rest) =
     (case call_tool mapping toolCall of
        Inl e \<Rightarrow> ([], Some e)
      | Inr result \<Rightarrow>
          (let (lines, raised) = invoke_tools mapping rest
           in (ResultLine (call_name toolCall) (args toolCall) result # lines, raised)))"

text \<open>The script from the answer of the model on: both loops, one after the other.\<close>

definition main :: "tool_call list \<Rightarrow> console_line list \<times> js_error option" where
  "main tool_calls =
     (let (lines, raised) = invoke_tools toolMapping tool_calls
      in (detected_tools tool_calls @ lines, raised))"

text \<open>A call that returns: its arguments are a plain object and nothing is raised.\<close>

definition returns :: "tool_object \<Rightarrow> tool_call \<Rightarrow> bool" where
  "returns mapping toolCall =
     (plain_args (args toolCall) \<and>
      (case call_tool mapping toolCall of Inl _ \<Rightarrow> False | Inr _ \<Rightarrow> True))"

section \<open>The numbers\<close>

text \<open>\<open>floor_log2\<close> is the exponent of the leading binary digit.\<close>

lemma bit_length_pos: "0 < n \<Longrightarrow> 0 < bit_length n"
proof (induction n rule: bit_length.induct)
  case (1 n)
  have "0 \<le> bit_length (n div 2)"
  proof (cases "n div 2 \<le> 0")
    case True
    then show ?thesis by (simp add: bit_length.simps)
  next
    case False
    with 1 show ?thesis by simp
  qed
  with 1 show ?case
    by (subst bit_length.simps) simp
qed

lemma bit_length_bounds:
  "0 < n \<Longrightarrow> 2 ^ nat (bit_length n - 1) \<le> n \<and> n < 2 ^ nat (bit_length n)"
proof (induction n rule: bit_length.induct)
  case (1 n)
  show ?case
  proof (cases "n = 1")
    case True
    then show ?thesis
      by (simp add: bit_length.simps)
  next
    case False
    with 1(2) have h: "0 < n div 2" by simp
    from 1(1) 1(2) h have IH: "2 ^ nat (bit_length (n div 2) - 1) \<le> n div 2"
      "n div 2 < 2 ^ nat (bit_length (n div 2))"
      by simp_all
    have bl: "bit_length n = 1 + bit_length (n div 2)"
      using 1(2) by (subst bit_length.simps) simp
    have p: "0 < bit_length (n div 2)" using h by (rule bit_length_pos)
    have e1: "nat (bit_length n - 1) = Suc (nat (bit_length (n div 2) - 1))"
      using bl p by simp
    have e2: "nat (bit_length n) = Suc (nat (bit_length (n div 2)))"
      using bl p by simp
    from IH show ?thesis
      unfolding e1 e2 by simp linarith
  qed
qed

lemma bit_length_nat:
  assumes "0 < n"
  obtains B where "bit_length n = int (Suc B)" and "2 ^ B \<le> n" and "n < 2 ^ Suc B"
proof -
  from bit_length_pos [OF assms] obtain B where B: "bit_length n = int (Suc B)"
    by (metis Suc_pred' zero_less_nat_eq int_nat_eq less_le)
  have "nat (int (Suc B) - 1) = B" and "nat (int (Suc B)) = Suc B"
    by simp_all
  with bit_length_bounds [OF assms] have "2 ^ B \<le> n" and "n < 2 ^ Suc B"
    unfolding B by (simp_all only:)
  with B that show ?thesis by blast
qed

lemma above_floor_power:
  fixes q :: rat and B :: nat
  assumes "2 ^ B \<le> \<lfloor>q\<rfloor>"
  shows "2 ^ B \<le> q"
proof -
  have "(of_int (2 ^ B) :: rat) \<le> of_int \<lfloor>q\<rfloor>"
    using assms by (simp only: of_int_le_iff)
  also have "\<dots> \<le> q" by (rule of_int_floor_le)
  finally show ?thesis by simp
qed

lemma below_floor_power:
  fixes q :: rat and B :: nat
  assumes "\<lfloor>q\<rfloor> < 2 ^ B"
  shows "q < 2 ^ B"
proof -
  have "\<lfloor>q\<rfloor> + 1 \<le> 2 ^ B" using assms by linarith
  then have "(of_int (\<lfloor>q\<rfloor> + 1) :: rat) \<le> of_int (2 ^ B)"
    by (simp only: of_int_le_iff)
  moreover have "q < of_int (\<lfloor>q\<rfloor> + 1)" by linarith
  ultimately have "q < of_int (2 ^ B)" by (rule less_le_trans [rotated])
  then show ?thesis by simp
qed

lemma ceiling_less_power:
  fixes q :: rat and B :: nat
  assumes "\<lceil>q\<rceil> - 1 < 2 ^ B"
  shows "q \<le> 2 ^ B"
proof -
  have c: "q \<le> of_int \<lceil>q\<rceil>" by (rule le_of_int_ceiling)
  have "\<lceil>q\<rceil> \<le> 2 ^ B" using assms by linarith
  then have "(of_int \<lceil>q\<rceil> :: rat) \<le> of_int (2 ^ B)"
    by (simp only: of_int_le_iff)
  also have "(of_int (2 ^ B) :: rat) = 2 ^ B" by simp
  finally show ?thesis using c by linarith
qed

lemma ceiling_above_power:
  fixes q :: rat and B :: nat
  assumes "2 ^ B \<le> \<lceil>q\<rceil> - 1"
  shows "2 ^ B < q"
proof -
  have "(of_int (2 ^ B) :: rat) \<le> of_int (\<lceil>q\<rceil> - 1)"
    using assms by (simp only: of_int_le_iff)
  moreover have "of_int (\<lceil>q\<rceil> - 1) < q" by linarith
  ultimately have "(of_int (2 ^ B) :: rat) < q" by (rule le_less_trans)
  then show ?thesis by simp
qed

lemma reciprocal_power_le:
  fixes q :: rat
  assumes "0 < q" and "1 / q \<le> 2 ^ B"
  shows "1 / 2 ^ B \<le> q"
proof -
  have "1 \<le> 2 ^ B * q" using assms by (simp add: pos_divide_le_eq)
  then show ?thesis by (simp add: pos_divide_le_eq mult.commute)
qed

lemma less_reciprocal_power:
  fixes q :: rat
  assumes "0 < q" and "2 ^ B < 1 / q"
  shows "q < 1 / 2 ^ B"
proof -
  have "2 ^ B * q < 1" using assms by (simp add: pos_less_divide_eq)
  then show ?thesis by (simp add: pos_less_divide_eq mult.commute)
qed

lemma floor_log2_bounds:
  assumes "0 < q"
  shows "pow2 (floor_log2 q) \<le> q \<and> q < pow2 (floor_log2 q + 1)"
proof (cases "1 \<le> q")
  case True
  have n: "0 < \<lfloor>q\<rfloor>" using True by linarith
  from bit_length_nat [OF n] obtain B where B: "bit_length \<lfloor>q\<rfloor> = int (Suc B)"
    and lo: "2 ^ B \<le> \<lfloor>q\<rfloor>" and hi: "\<lfloor>q\<rfloor> < 2 ^ Suc B"
    by blast
  have fl: "floor_log2 q = int B"
    using True by (simp add: floor_log2_def B)
  have p1: "pow2 (int B) = 2 ^ B" by (simp add: pow2_def)
  have "nat (int B + 1) = Suc B" by arith
  then have "(2::rat) ^ nat (int B + 1) = 2 ^ Suc B" by (simp only:)
  then have p2: "pow2 (int B + 1) = 2 ^ Suc B" by (simp add: pow2_def)
  from above_floor_power [OF lo] below_floor_power [OF hi] show ?thesis
    unfolding fl p1 p2 by blast
next
  case False
  from False assms have inv: "1 < 1 / q" by simp
  then have m: "0 < \<lceil>1 / q\<rceil> - 1" by linarith
  from bit_length_nat [OF m] obtain B where B: "bit_length (\<lceil>1 / q\<rceil> - 1) = int (Suc B)"
    and lo: "2 ^ B \<le> \<lceil>1 / q\<rceil> - 1" and hi: "\<lceil>1 / q\<rceil> - 1 < 2 ^ Suc B"
    by blast
  have fl: "floor_log2 q = - int (Suc B)"
    using False by (simp add: floor_log2_def B)
  have p1: "pow2 (- int (Suc B)) = 1 / 2 ^ Suc B" by (simp add: pow2_def del: of_nat_Suc)
  have "pow2 (- int B) = 1 / 2 ^ B" by (simp add: pow2_def)
  moreover have "- int (Suc B) + 1 = - int B" by simp
  ultimately have p2: "pow2 (- int (Suc B) + 1) = 1 / 2 ^ B" by (simp only:)
  from reciprocal_power_le [OF assms ceiling_less_power [OF hi]]
    less_reciprocal_power [OF assms ceiling_above_power [OF lo]]
  show ?thesis unfolding fl p1 p2 by blast
qed

lemma round_half_even_of_int: "round_half_even (of_int k) = k"
  by (simp add: round_half_even_def)

lemma floor_log2_of_int:
  assumes "0 < a"
  obtains B where "floor_log2 (of_int a) = int B" and "2 ^ B \<le> a" and "a < 2 ^ Suc B"
proof -
  from bit_length_nat [OF assms] obtain B where B: "bit_length a = int (Suc B)"
    and lo: "2 ^ B \<le> a" and hi: "a < 2 ^ Suc B"
    by blast
  have "(1::rat) \<le> of_int a" using assms by simp
  then have "floor_log2 (of_int a) = int B"
    by (simp add: floor_log2_def B)
  with lo hi that show ?thesis by blast
qed

lemma round_magnitude_of_int:
  assumes "0 < a" and "a \<le> 2 ^ 53"
  shows "of_int (round_half_even (of_int a / pow2 (max (floor_log2 (of_int a) - 52) (- 1074))))
           * pow2 (max (floor_log2 (of_int a) - 52) (- 1074)) = (of_int a :: rat)"
proof -
  from floor_log2_of_int [OF assms(1)] obtain B where fl: "floor_log2 (of_int a) = int B"
    and lo: "2 ^ B \<le> a" and hi: "a < 2 ^ Suc B"
    by blast
  from lo assms(2) have "(2::int) ^ B \<le> 2 ^ 53" by (rule order_trans)
  then have B53: "B \<le> 53" by (intro power_le_imp_le_exp [of "2::int"]) simp
  have e: "max (floor_log2 (of_int a) - 52) (- 1074) = int B - 52"
    unfolding fl by simp
  show ?thesis
  proof (cases "B \<le> 52")
    case True
    have p: "pow2 (int B - 52) = 1 / 2 ^ (52 - B)"
    proof (cases "B = 52")
      case True
      then show ?thesis by (simp add: pow2_def)
    next
      case False
      with \<open>B \<le> 52\<close> have "nat (52 - int B) = 52 - B" and "\<not> 0 \<le> int B - 52"
        by simp_all
      then show ?thesis by (simp add: pow2_def)
    qed
    have h: "(of_int a :: rat) / pow2 (int B - 52) = of_int (a * 2 ^ (52 - B))"
      unfolding p by simp
    have "round_half_even (of_int a / pow2 (int B - 52)) = a * 2 ^ (52 - B)"
      unfolding h by (rule round_half_even_of_int)
    then have "of_int (round_half_even (of_int a / pow2 (int B - 52))) * pow2 (int B - 52) =
        (of_int a :: rat)"
      by (simp add: p)
    then show ?thesis
      unfolding e .
  next
    case False
    with B53 have B: "B = 53" by simp
    with lo assms(2) have a: "a = 2 ^ 53" by simp
    have p: "pow2 (int B - 52) = 2" unfolding B by (simp add: pow2_def)
    have h: "(of_int a :: rat) / 2 = of_int (2 ^ 52)"
      unfolding a by simp
    have "round_half_even (of_int a / 2) = 2 ^ 52"
      unfolding h by (rule round_half_even_of_int)
    then have "of_int (round_half_even (of_int a / 2)) * 2 = (of_int a :: rat)"
      by (simp add: a)
    then show ?thesis
      unfolding e p .
  qed
qed

lemma round_double_of_int:
  assumes "\<bar>n\<bar> \<le> 2 ^ 53"
  shows "round_double (of_int n) = Num (of_int n)"
proof (cases "n = 0")
  case True
  then show ?thesis by (simp add: round_double_def)
next
  case False
  let ?a = "\<bar>n\<bar>"
  have a: "0 < ?a" using False by simp
  have abs: "\<bar>of_int n :: rat\<bar> = of_int ?a" by simp
  have r: "of_int (round_half_even (of_int ?a / pow2 (max (floor_log2 (of_int ?a) - 52) (- 1074))))
           * pow2 (max (floor_log2 (of_int ?a) - 52) (- 1074)) = (of_int ?a :: rat)"
    using a assms by (rule round_magnitude_of_int)
  have "(of_int ?a :: rat) \<le> of_int (2 ^ 53)"
    using assms by (simp only: of_int_le_iff)
  also have "\<dots> < 2 ^ 1024" by simp
  finally have small: "\<not> (2 ^ 1024 \<le> (of_int ?a :: rat))" by simp
  have nz: "(of_int ?a :: rat) \<noteq> 0" using False by simp
  have q: "(of_int n :: rat) \<noteq> 0" using False by simp
  have sgn: "(if (of_int n :: rat) < 0 then - of_int ?a else of_int ?a) = (of_int n :: rat)"
    by simp
  show ?thesis
    unfolding round_double_def Let_def abs r
    using small nz q sgn by (simp only: if_False) 
qed
text \<open>
  An integer of magnitude at most \<open>2^53\<close> is a binary64 value, and sums and products of
  integers that stay in this range are exact.
\<close>

lemma js_add_int:
  assumes "\<bar>i + j\<bar> \<le> 2 ^ 53"
  shows "js_add (Num (of_int i)) (Num (of_int j)) = Num (of_int (i + j))"
  using round_double_of_int [OF assms] by (simp add: js_add_def)

lemma js_mul_int:
  assumes "i \<noteq> 0" and "j \<noteq> 0" and "\<bar>i * j\<bar> \<le> 2 ^ 53"
  shows "js_mul (Num (of_int i)) (Num (of_int j)) = Num (of_int (i * j))"
  using round_double_of_int [OF assms(3)] assms(1,2) by (simp add: js_mul_def)

lemma round_double_42: "round_double 42 = Num 42"
  using round_double_of_int [of 42] by simp

lemma round_double_3: "round_double 3 = Num 3"
  using round_double_of_int [of 3] by simp

text \<open>
  Where rounding shows: \<open>0.1 + 0.2\<close> is \<open>0.30000000000000004\<close>. The operands are the
  binary64 values nearest to \<open>1/10\<close> and \<open>2/10\<close>.
\<close>

lemma js_add_tenth_fifth:
  "js_add (Num (3602879701896397 / 36028797018963968))
          (Num (3602879701896397 / 18014398509481984)) =
     Num (1351079888211149 / 4503599627370496)"
  by code_simp



lemma func_additionTool:
  "func additionTool input =
     Inr (JNum (js_add (to_number (map_of input ''a'')) (to_number (map_of input ''b''))))"
  by (simp add: additionTool_def tool_def)

lemma func_multiplicationTool:
  "func multiplicationTool input =
     Inr (JNum (js_mul (to_number (map_of input ''a'')) (to_number (map_of input ''b''))))"
  by (simp add: multiplicationTool_def tool_def)

lemma schema_additionTool: "schema additionTool = calculationSchema"
  by (simp add: additionTool_def tool_def)

lemma schema_multiplicationTool: "schema multiplicationTool = calculationSchema"
  by (simp add: multiplicationTool_def tool_def)

lemma toolMapping_addition: "toolMapping ''addition'' = Some additionTool"
  by (simp add: toolMapping_def)

lemma toolMapping_multiplication: "toolMapping ''multiplication'' = Some multiplicationTool"
  by (simp add: toolMapping_def)

lemma toolMapping_other:
  "k \<noteq> ''addition'' \<Longrightarrow> k \<noteq> ''multiplication'' \<Longrightarrow> toolMapping k = None"
  by (simp add: toolMapping_def)

section \<open>The schema on an object\<close>

lemma parse_number_Inr:
  "parse_number p v = Inr x \<longleftrightarrow> v = Some (JNum x) \<and> x \<noteq> NaN"
  by (cases "(p, v)" rule: parse_number.cases) auto

lemma parse_number_Inl_nonempty: "parse_number p v = Inl e \<Longrightarrow> e \<noteq> []"
  by (cases "(p, v)" rule: parse_number.cases) (auto split: if_splits)

lemma parse_number_issues:
  "parse_number p v = Inl issues \<Longrightarrow> issues = [InvalidType p ZNumber (getParsedType v)]"
  by (cases "(p, v)" rule: parse_number.cases) (auto split: if_splits)

lemma parse_calculationSchema:
  "parse calculationSchema (JObj kvs) =
     (case (parse_number [''a''] (map_of kvs ''a''), parse_number [''b''] (map_of kvs ''b'')) of
        (Inr x, Inr y) \<Rightarrow> Inr [(''a'', x), (''b'', y)]
      | (Inr x, Inl e) \<Rightarrow> Inl e
      | (Inl e, Inr y) \<Rightarrow> Inl e
      | (Inl e, Inl e') \<Rightarrow> Inl (e @ e'))"
  by (auto simp add: calculationSchema_def z_object_def split: sum.splits
      dest: parse_number_Inl_nonempty)

lemma parse_calculationSchema_Inr:
  "parse calculationSchema (JObj kvs) = Inr out \<longleftrightarrow>
     (\<exists>x y. map_of kvs ''a'' = Some (JNum x) \<and> x \<noteq> NaN \<and>
            map_of kvs ''b'' = Some (JNum y) \<and> y \<noteq> NaN \<and>
            out = [(''a'', x), (''b'', y)])"
  unfolding parse_calculationSchema
  by (auto simp add: parse_number_Inr split: sum.splits)

lemma parse_calculationSchema_issues:
  assumes "parse calculationSchema input = Inl issues" and "i \<in> set issues"
  shows "\<exists>p e r. i = InvalidType p e r"
proof (cases input)
  case (JObj kvs)
  with assms show ?thesis
    unfolding JObj parse_calculationSchema
    by (auto split: sum.splits dest!: parse_number_issues)
qed (use assms in auto)

lemma parse_calculationSchema_keys:
  assumes "parse calculationSchema input = Inr out"
  shows "map fst out = [''a'', ''b'']"
proof (cases input)
  case (JObj kvs)
  with assms show ?thesis
    by (auto simp add: parse_calculationSchema_Inr simp del: parse.simps)
qed (use assms in auto)

lemma parse_calculationSchema_depends:
  assumes "map_of kvs ''a'' = map_of kvs' ''a''" and "map_of kvs ''b'' = map_of kvs' ''b''"
  shows "parse calculationSchema (JObj kvs) = parse calculationSchema (JObj kvs')"
  unfolding parse_calculationSchema using assms by simp

text \<open>
  On integers in the exact range the tools return the sum and the product: the
  addition for all such operands, the multiplication for nonzero ones (a zero times a
  negative number is the negative zero).
\<close>

lemma invoke_additionTool_int:
  assumes "\<bar>i + j\<bar> \<le> 2 ^ 53"
  shows "invoke additionTool (JObj [(''a'', JNum (Num (of_int i))), (''b'', JNum (Num (of_int j)))]) =
     Inr (JNum (Num (of_int (i + j))))"
  using js_add_int [OF assms]
  by (simp add: invoke_def schema_additionTool func_additionTool parse_calculationSchema
      del: parse.simps)

lemma invoke_multiplicationTool_int:
  assumes "i \<noteq> 0" and "j \<noteq> 0" and "\<bar>i * j\<bar> \<le> 2 ^ 53"
  shows "invoke multiplicationTool
       (JObj [(''a'', JNum (Num (of_int i))), (''b'', JNum (Num (of_int j)))]) =
     Inr (JNum (Num (of_int (i * j))))"
  using js_mul_int [OF assms]
  by (simp add: invoke_def schema_multiplicationTool func_multiplicationTool
      parse_calculationSchema del: parse.simps)

section \<open>The loop that invokes the tools\<close>

lemma invoke_tools_append:
  "invoke_tools m pre = (ls, None) \<Longrightarrow>
     invoke_tools m (pre @ rest) = (ls @ fst (invoke_tools m rest), snd (invoke_tools m rest))"
proof (induction pre arbitrary: ls)
  case Nil
  then show ?case by simp
next
  case (Cons c pre)
  then show ?case
    by (auto split: sum.splits prod.splits)
qed

lemma invoke_tools_abort:
  assumes "invoke_tools m before = (lines, None)" and "call_tool m c = Inl e"
  shows "invoke_tools m (before @ c # rest) = (lines, Some e)"
  using invoke_tools_append [OF assms(1), of "c # rest"] assms(2) by simp

lemma invoke_tools_length: "length (fst (invoke_tools m cs)) \<le> length cs"
  by (induction cs) (auto split: sum.splits prod.splits)

lemma invoke_tools_nth:
  "i < length (fst (invoke_tools m cs)) \<Longrightarrow>
     \<exists>result. call_tool m (cs ! i) = Inr result \<and>
       fst (invoke_tools m cs) ! i = ResultLine (call_name (cs ! i)) (args (cs ! i)) result"
proof (induction cs arbitrary: i)
  case Nil
  then show ?case by simp
next
  case (Cons c cs)
  show ?case
  proof (cases "call_tool m c")
    case (Inl e)
    with Cons.prems show ?thesis by simp
  next
    case (Inr r)
    show ?thesis
    proof (cases i)
      case 0
      with Inr show ?thesis by (simp split: prod.splits)
    next
      case (Suc j)
      with Inr Cons.prems have "j < length (fst (invoke_tools m cs))"
        by (simp split: prod.splits)
      from Cons.IH [OF this] Inr Suc show ?thesis
        by (auto split: prod.splits)
    qed
  qed
qed

lemma invoke_tools_None_iff:
  "snd (invoke_tools m cs) = None \<longleftrightarrow> length (fst (invoke_tools m cs)) = length cs"
proof (induction cs)
  case Nil
  then show ?case by simp
next
  case (Cons c cs)
  then show ?case
    by (auto split: sum.splits prod.splits)
qed

lemma invoke_tools_Some:
  "snd (invoke_tools m cs) = Some e \<Longrightarrow>
     call_tool m (cs ! length (fst (invoke_tools m cs))) = Inl e"
  by (induction cs) (auto split: sum.splits prod.splits)

lemma invoke_tools_all_return:
  "\<forall>c \<in> set cs. \<exists>result. call_tool m c = Inr result \<Longrightarrow> snd (invoke_tools m cs) = None"
  by (induction cs) (auto split: sum.splits prod.splits)

lemma returns_Inr: "returns m c \<Longrightarrow> \<exists>result. call_tool m c = Inr result"
  by (auto simp add: returns_def split: sum.splits)

lemma call_addition_30_12:
  "call_tool toolMapping
     (ToolCall ''addition'' (JObj [(''a'', JNum (Num 30)), (''b'', JNum (Num 12))])) =
   Inr (JNum (Num 42))"
  by (simp add: call_tool_def toolMapping_addition invoke_def calculationSchema_def
      z_object_def additionTool_def tool_def js_add_def round_double_42)

lemma call_multiplication_21_2:
  "call_tool toolMapping
     (ToolCall ''multiplication'' (JObj [(''a'', JNum (Num 21)), (''b'', JNum (Num 2))])) =
   Inr (JNum (Num 42))"
  by (simp add: call_tool_def toolMapping_multiplication invoke_def calculationSchema_def
      z_object_def multiplicationTool_def tool_def js_mul_def round_double_42)

lemma call_unknownTool:
  "call_tool toolMapping (ToolCall ''unknownTool'' v) = Inl TypeError"
  by (simp add: call_tool_def toolMapping_other)

text \<open>
  The mapping has the two names of the script and no other, and the functions of its
  tools return on every parsed input: no run of the loop on \<open>toolMapping\<close> ends with an
  error thrown by the function of a tool.
\<close>

lemma dom_toolMapping: "dom toolMapping = {''addition'', ''multiplication''}"
  by (auto simp add: toolMapping_def)

lemma toolMapping_func_returns:
  "toolMapping n = Some t \<Longrightarrow> \<exists>v. func t parsed = Inr v"
  by (auto simp add: toolMapping_def func_additionTool func_multiplicationTool
      split: if_splits)

lemma call_tool_not_Thrown: "call_tool toolMapping toolCall \<noteq> Inl (Thrown v)"
proof (cases "toolMapping (call_name toolCall)")
  case None
  then show ?thesis by (simp add: call_tool_def)
next
  case (Some t)
  show ?thesis
  proof (cases "parse (schema t) (args toolCall)")
    case (Inl issues)
    with Some show ?thesis by (simp add: call_tool_def invoke_def)
  next
    case (Inr parsed)
    from toolMapping_func_returns [OF Some, of parsed] obtain r where "func t parsed = Inr r"
      by blast
    with Some Inr show ?thesis by (simp add: call_tool_def invoke_def)
  qed
qed

lemma invoke_tools_not_Thrown:
  "snd (invoke_tools toolMapping tool_calls) \<noteq> Some (Thrown v)"
proof (induction tool_calls)
  case Nil
  then show ?case by simp
next
  case (Cons c cs)
  show ?case
  proof (cases "call_tool toolMapping c")
    case (Inl e)
    with call_tool_not_Thrown [of c v] show ?thesis by auto
  next
    case (Inr r)
    with Cons show ?thesis by (auto split: prod.splits)
  qed
qed

text \<open>
  A request that names one of the two tools, with a plain object of arguments that
  holds numbers other than NaN at \<open>a\<close> and \<open>b\<close>, returns the sum or the product of the
  two.
\<close>

lemma call_tool_valid:
  assumes "n = ''addition'' \<or> n = ''multiplication''"
    and "plain_args (JObj kvs)"
    and "map_of kvs ''a'' = Some (JNum x)" and "x \<noteq> NaN"
    and "map_of kvs ''b'' = Some (JNum y)" and "y \<noteq> NaN"
  shows "call_tool toolMapping (ToolCall n (JObj kvs)) =
     Inr (JNum (if n = ''addition'' then js_add x y else js_mul x y))"
proof -
  have p: "parse calculationSchema (JObj kvs) = Inr [(''a'', x), (''b'', y)]"
    using assms(3-6) by (simp add: parse_calculationSchema_Inr del: parse.simps)
  from assms(1) show ?thesis
  proof
    assume "n = ''addition''"
    then show ?thesis
      by (simp add: call_tool_def toolMapping_addition invoke_def schema_additionTool p
          func_additionTool del: parse.simps)
  next
    assume "n = ''multiplication''"
    then show ?thesis
      by (simp add: call_tool_def toolMapping_multiplication invoke_def
          schema_multiplicationTool p func_multiplicationTool del: parse.simps)
  qed
qed

lemma returns_valid:
  assumes "n = ''addition'' \<or> n = ''multiplication''"
    and "plain_args (JObj kvs)"
    and "map_of kvs ''a'' = Some (JNum x)" and "x \<noteq> NaN"
    and "map_of kvs ''b'' = Some (JNum y)" and "y \<noteq> NaN"
  shows "returns toolMapping (ToolCall n (JObj kvs))"
  using call_tool_valid [OF assms] assms(2) by (simp add: returns_def)

section \<open>Claims about the loop\<close>

text \<open>
  Claim C1, as amended. The loop prints one result line for each request of the longest
  run of requests, from the first one on, whose call returns: line \<open>i\<close> is the result of
  request \<open>i\<close>, with its name and arguments. When every request returns (it names a tool
  of the mapping, its arguments are a plain object that the schema accepts, and the
  function of the tool returns), there are as many lines as requests and nothing is
  raised. Otherwise the loop ends at the first request whose call raises, with the error
  of that call, and the requests from that one on print nothing.
\<close>

theorem invoke_tools_results_in_order:
  assumes "invoke_tools mapping tool_calls = (lines, raised)"
  shows "((\<forall>c \<in> set tool_calls. returns mapping c) \<longrightarrow>
            raised = None \<and> length lines = length tool_calls)
       \<and> length lines \<le> length tool_calls
       \<and> (\<forall>i < length lines. \<exists>result.
             call_tool mapping (tool_calls ! i) = Inr result \<and>
             lines ! i =
               ResultLine (call_name (tool_calls ! i)) (args (tool_calls ! i)) result)
       \<and> (raised = None \<longleftrightarrow> length lines = length tool_calls)
       \<and> (\<forall>e. raised = Some e \<longrightarrow> call_tool mapping (tool_calls ! length lines) = Inl e)"
proof -
  have l: "lines = fst (invoke_tools mapping tool_calls)"
    and r: "raised = snd (invoke_tools mapping tool_calls)"
    using assms by simp_all
  have iff: "raised = None \<longleftrightarrow> length lines = length tool_calls"
    unfolding l r by (rule invoke_tools_None_iff)
  have "(\<forall>c \<in> set tool_calls. returns mapping c) \<longrightarrow> raised = None"
    unfolding r using invoke_tools_all_return [of tool_calls mapping] returns_Inr by blast
  moreover have "length lines \<le> length tool_calls"
    unfolding l by (rule invoke_tools_length)
  moreover have "\<forall>i < length lines. \<exists>result.
             call_tool mapping (tool_calls ! i) = Inr result \<and>
             lines ! i =
               ResultLine (call_name (tool_calls ! i)) (args (tool_calls ! i)) result"
    unfolding l using invoke_tools_nth by blast
  moreover have "\<forall>e. raised = Some e \<longrightarrow> call_tool mapping (tool_calls ! length lines) = Inl e"
    unfolding l r using invoke_tools_Some by blast
  ultimately show ?thesis using iff by blast
qed

text \<open>
  The theorem at the two requests of the README: both return, and the loop prints two
  lines and raises nothing.
\<close>

theorem invoke_tools_results_in_order_witness:
  "invoke_tools toolMapping
     [ToolCall ''addition'' (JObj [(''a'', JNum (Num 30)), (''b'', JNum (Num 12))]),
      ToolCall ''multiplication'' (JObj [(''a'', JNum (Num 21)), (''b'', JNum (Num 2))])] =
   ([ResultLine ''addition'' (JObj [(''a'', JNum (Num 30)), (''b'', JNum (Num 12))])
       (JNum (Num 42)),
     ResultLine ''multiplication'' (JObj [(''a'', JNum (Num 21)), (''b'', JNum (Num 2))])
       (JNum (Num 42))], None)
   \<and> returns toolMapping
       (ToolCall ''addition'' (JObj [(''a'', JNum (Num 30)), (''b'', JNum (Num 12))]))
   \<and> returns toolMapping
       (ToolCall ''multiplication'' (JObj [(''a'', JNum (Num 21)), (''b'', JNum (Num 2))]))
   \<and> length [ResultLine ''addition'' (JObj [(''a'', JNum (Num 30)), (''b'', JNum (Num 12))])
       (JNum (Num 42)),
     ResultLine ''multiplication'' (JObj [(''a'', JNum (Num 21)), (''b'', JNum (Num 2))])
       (JNum (Num 42))] =
     length [ToolCall ''addition'' (JObj [(''a'', JNum (Num 30)), (''b'', JNum (Num 12))]),
      ToolCall ''multiplication'' (JObj [(''a'', JNum (Num 21)), (''b'', JNum (Num 2))])]"
proof -
  let ?c1 = "ToolCall ''addition'' (JObj [(''a'', JNum (Num 30)), (''b'', JNum (Num 12))])"
  let ?c2 = "ToolCall ''multiplication'' (JObj [(''a'', JNum (Num 21)), (''b'', JNum (Num 2))])"
  let ?lines = "[ResultLine ''addition'' (JObj [(''a'', JNum (Num 30)), (''b'', JNum (Num 12))])
       (JNum (Num 42)),
     ResultLine ''multiplication'' (JObj [(''a'', JNum (Num 21)), (''b'', JNum (Num 2))])
       (JNum (Num 42))]"
  have run: "invoke_tools toolMapping [?c1, ?c2] = (?lines, None)"
    by (simp add: call_addition_30_12 call_multiplication_21_2)
  have r1: "returns toolMapping ?c1"
    by (simp add: returns_def call_addition_30_12)
  have r2: "returns toolMapping ?c2"
    by (simp add: returns_def call_multiplication_21_2)
  from invoke_tools_results_in_order [OF run] r1 r2 run show ?thesis
    by simp
qed

text \<open>
  Claim C1 as stated fails: of three requests, the second naming a tool that the mapping
  does not have, the loop prints the result of the first only and raises a TypeError;
  the third request is dropped.
\<close>

theorem unknown_name_drops_requests_counterexample:
  "invoke_tools toolMapping
     [ToolCall ''addition'' (JObj [(''a'', JNum (Num 30)), (''b'', JNum (Num 12))]),
      ToolCall ''unknownTool'' (JObj []),
      ToolCall ''multiplication'' (JObj [(''a'', JNum (Num 21)), (''b'', JNum (Num 2))])] =
   ([ResultLine ''addition'' (JObj [(''a'', JNum (Num 30)), (''b'', JNum (Num 12))])
       (JNum (Num 42))], Some TypeError)"
  by (simp add: call_addition_30_12 call_unknownTool)

text \<open>
  Claim C2, as amended. A request whose name is not a property of the mapping makes the
  call raise a TypeError. Nothing catches it: after requests that returned, the loop
  ends with their lines and the TypeError, whatever requests follow.
\<close>

theorem unknown_name_raises_TypeError:
  assumes "mapping (call_name toolCall) = None"
    and "invoke_tools mapping before = (lines, None)"
  shows "call_tool mapping toolCall = Inl TypeError
       \<and> invoke_tools mapping (before @ toolCall # rest) = (lines, Some TypeError)"
proof -
  have "call_tool mapping toolCall = Inl TypeError"
    using assms(1) by (simp add: call_tool_def)
  then show ?thesis
    using invoke_tools_abort [OF assms(2)] by simp
qed

text \<open>The theorem at \<open>unknownTool\<close> between a multiplication and an addition.\<close>

theorem unknown_name_raises_TypeError_witness:
  "toolMapping (call_name (ToolCall ''unknownTool'' (JObj []))) = None
   \<and> invoke_tools toolMapping
       [ToolCall ''multiplication'' (JObj [(''a'', JNum (Num 21)), (''b'', JNum (Num 2))])] =
     ([ResultLine ''multiplication'' (JObj [(''a'', JNum (Num 21)), (''b'', JNum (Num 2))])
         (JNum (Num 42))], None)
   \<and> invoke_tools toolMapping
       ([ToolCall ''multiplication'' (JObj [(''a'', JNum (Num 21)), (''b'', JNum (Num 2))])]
        @ ToolCall ''unknownTool'' (JObj [])
        # [ToolCall ''addition'' (JObj [(''a'', JNum (Num 30)), (''b'', JNum (Num 12))])]) =
     ([ResultLine ''multiplication'' (JObj [(''a'', JNum (Num 21)), (''b'', JNum (Num 2))])
         (JNum (Num 42))], Some TypeError)"
proof -
  have none: "toolMapping (call_name (ToolCall ''unknownTool'' (JObj []))) = None"
    by (simp add: toolMapping_other)
  have run: "invoke_tools toolMapping
       [ToolCall ''multiplication'' (JObj [(''a'', JNum (Num 21)), (''b'', JNum (Num 2))])] =
     ([ResultLine ''multiplication'' (JObj [(''a'', JNum (Num 21)), (''b'', JNum (Num 2))])
         (JNum (Num 42))], None)"
    by (simp add: call_multiplication_21_2)
  from unknown_name_raises_TypeError [OF none run] none run show ?thesis
    by blast
qed

text \<open>
  Claim C2 as stated fails: for the request \<open>{unknownTool, {}}\<close> the loop yields no
  result at all, it raises, and the addition that follows is not processed.
\<close>

theorem unknown_tool_failure_result_counterexample:
  "invoke_tools toolMapping
     [ToolCall ''unknownTool'' (JObj []),
      ToolCall ''addition'' (JObj [(''a'', JNum (Num 30)), (''b'', JNum (Num 12))])] =
   ([], Some TypeError)"
  by (simp add: call_unknownTool)

section \<open>Claims about the schema\<close>

text \<open>
  Claim C4, as amended. The schema ignores a key that it does not declare: adding such a
  key to an argument mapping, in front or at the end, changes neither whether the
  mapping is accepted nor the parsed arguments, and no issue ever reports an
  unrecognized key. A mapping is accepted exactly when \<open>a\<close> and \<open>b\<close> hold numbers other
  than NaN, and the parsed arguments then contain exactly the declared keys \<open>a\<close> and
  \<open>b\<close>, with those numbers.
\<close>

theorem calculationSchema_ignores_unknown_keys:
  assumes "k \<noteq> ''a''" and "k \<noteq> ''b''"
  shows "parse calculationSchema (JObj (kvs @ [(k, v)])) = parse calculationSchema (JObj kvs)
       \<and> parse calculationSchema (JObj ((k, v) # kvs)) = parse calculationSchema (JObj kvs)
       \<and> (parse calculationSchema (JObj kvs) = Inr out \<longleftrightarrow>
            (\<exists>x y. map_of kvs ''a'' = Some (JNum x) \<and> x \<noteq> NaN \<and>
                   map_of kvs ''b'' = Some (JNum y) \<and> y \<noteq> NaN \<and>
                   out = [(''a'', x), (''b'', y)]))
       \<and> (parse calculationSchema input = Inr out \<longrightarrow> map fst out = [''a'', ''b''])
       \<and> (parse calculationSchema input = Inl issues \<longrightarrow>
            (\<forall>i \<in> set issues. \<forall>p ks. i \<noteq> UnrecognizedKeys p ks))"
proof -
  have 1: "parse calculationSchema (JObj (kvs @ [(k, v)])) = parse calculationSchema (JObj kvs)"
    using assms
    by (intro parse_calculationSchema_depends) (auto simp add: map_add_def split: option.splits)
  have 2: "parse calculationSchema (JObj ((k, v) # kvs)) = parse calculationSchema (JObj kvs)"
    using assms by (intro parse_calculationSchema_depends) simp_all
  have 3: "parse calculationSchema input = Inl issues \<longrightarrow>
            (\<forall>i \<in> set issues. \<forall>p ks. i \<noteq> UnrecognizedKeys p ks)"
    using parse_calculationSchema_issues by blast
  from 1 2 3 parse_calculationSchema_Inr [of kvs out] parse_calculationSchema_keys [of input out]
  show ?thesis by blast
qed

text \<open>The theorem at \<open>{a: 1, b: 2}\<close> with the undeclared key \<open>c\<close> added.\<close>

theorem calculationSchema_ignores_unknown_keys_witness:
  "''c'' \<noteq> ''a'' \<and> ''c'' \<noteq> ''b''
   \<and> parse calculationSchema
       (JObj ([(''a'', JNum (Num 1)), (''b'', JNum (Num 2))] @ [(''c'', JNum (Num 3))])) =
     Inr [(''a'', Num 1), (''b'', Num 2)]"
proof -
  have ca: "''c'' \<noteq> ''a''" and cb: "''c'' \<noteq> ''b''"
    by simp_all
  have "parse calculationSchema (JObj [(''a'', JNum (Num 1)), (''b'', JNum (Num 2))]) =
      Inr [(''a'', Num 1), (''b'', Num 2)]"
    by (simp add: parse_calculationSchema del: parse.simps)
  with calculationSchema_ignores_unknown_keys [OF ca cb,
      of "[(''a'', JNum (Num 1)), (''b'', JNum (Num 2))]" "JNum (Num 3)"] ca cb
  show ?thesis by simp
qed

text \<open>
  Claim C4 as stated fails: the mapping \<open>{a: 1, b: 2, c: 3}\<close> is not rejected. The
  schema accepts it and leaves \<open>c\<close> out, and the addition tool returns 3.
\<close>

theorem unknown_argument_rejected_counterexample:
  "parse calculationSchema
     (JObj [(''a'', JNum (Num 1)), (''b'', JNum (Num 2)), (''c'', JNum (Num 3))]) =
   Inr [(''a'', Num 1), (''b'', Num 2)]
   \<and> invoke additionTool
       (JObj [(''a'', JNum (Num 1)), (''b'', JNum (Num 2)), (''c'', JNum (Num 3))]) =
     Inr (JNum (Num 3))"
  by (simp add: invoke_def schema_additionTool func_additionTool parse_calculationSchema
      js_add_def round_double_3 del: parse.simps)



section \<open>Claims about the two tools and the mapping\<close>

text \<open>
  Claim C6. With the two tools of the script, the requests
  \<open>[{addition, {a: 30, b: 12}}, {multiplication, {a: 21, b: 2}}]\<close> yield the results 42 and
  42, in that order, and nothing is raised; the script prints the two detected calls
  and then the two results.
\<close>

theorem addition_then_multiplication:
  "invoke_tools toolMapping
     [ToolCall ''addition'' (JObj [(''a'', JNum (Num 30)), (''b'', JNum (Num 12))]),
      ToolCall ''multiplication'' (JObj [(''a'', JNum (Num 21)), (''b'', JNum (Num 2))])] =
   ([ResultLine ''addition'' (JObj [(''a'', JNum (Num 30)), (''b'', JNum (Num 12))])
       (JNum (Num 42)),
     ResultLine ''multiplication'' (JObj [(''a'', JNum (Num 21)), (''b'', JNum (Num 2))])
       (JNum (Num 42))], None)
   \<and> main
     [ToolCall ''addition'' (JObj [(''a'', JNum (Num 30)), (''b'', JNum (Num 12))]),
      ToolCall ''multiplication'' (JObj [(''a'', JNum (Num 21)), (''b'', JNum (Num 2))])] =
   ([ToolLine ''addition'' (JObj [(''a'', JNum (Num 30)), (''b'', JNum (Num 12))]),
     ToolLine ''multiplication'' (JObj [(''a'', JNum (Num 21)), (''b'', JNum (Num 2))]),
     ResultLine ''addition'' (JObj [(''a'', JNum (Num 30)), (''b'', JNum (Num 12))])
       (JNum (Num 42)),
     ResultLine ''multiplication'' (JObj [(''a'', JNum (Num 21)), (''b'', JNum (Num 2))])
       (JNum (Num 42))], None)"
  by (simp add: main_def call_addition_30_12 call_multiplication_21_2)

text \<open>
  Claim C8. A valid request names one of the two tools, and its arguments are a plain
  object whose \<open>a\<close> and \<open>b\<close> hold numbers other than NaN. Dispatched twice in a row, such
  a request returns both times, and with the same result: the sum of the two numbers
  for the addition tool, their product for the multiplication tool.
\<close>

theorem same_request_twice:
  assumes "n = ''addition'' \<or> n = ''multiplication''"
    and "plain_args (JObj kvs)"
    and "map_of kvs ''a'' = Some (JNum x)" and "x \<noteq> NaN"
    and "map_of kvs ''b'' = Some (JNum y)" and "y \<noteq> NaN"
  shows "invoke_tools toolMapping [ToolCall n (JObj kvs), ToolCall n (JObj kvs)] =
     ([ResultLine n (JObj kvs)
         (JNum (if n = ''addition'' then js_add x y else js_mul x y)),
       ResultLine n (JObj kvs)
         (JNum (if n = ''addition'' then js_add x y else js_mul x y))], None)"
  using call_tool_valid [OF assms] by simp

text \<open>The theorem at the multiplication of 21 by 2.\<close>

theorem same_request_twice_witness:
  "plain_args (JObj [(''a'', JNum (Num 21)), (''b'', JNum (Num 2))])
   \<and> invoke_tools toolMapping
       [ToolCall ''multiplication'' (JObj [(''a'', JNum (Num 21)), (''b'', JNum (Num 2))]),
        ToolCall ''multiplication'' (JObj [(''a'', JNum (Num 21)), (''b'', JNum (Num 2))])] =
     ([ResultLine ''multiplication'' (JObj [(''a'', JNum (Num 21)), (''b'', JNum (Num 2))])
         (JNum (Num 42)),
       ResultLine ''multiplication'' (JObj [(''a'', JNum (Num 21)), (''b'', JNum (Num 2))])
         (JNum (Num 42))], None)"
proof -
  let ?kvs = "[(''a'', JNum (Num 21)), (''b'', JNum (Num 2))]"
  have n: "''multiplication'' = ''addition'' \<or> ''multiplication'' = ''multiplication''"
    by simp
  have pl: "plain_args (JObj ?kvs)"
    by simp
  have a: "map_of ?kvs ''a'' = Some (JNum (Num 21))"
    and b: "map_of ?kvs ''b'' = Some (JNum (Num 2))"
    by simp_all
  have xa: "Num 21 \<noteq> NaN" and yb: "Num 2 \<noteq> NaN"
    by simp_all
  have m: "(if ''multiplication'' = ''addition'' then js_add (Num 21) (Num 2)
            else js_mul (Num 21) (Num 2)) = Num 42"
    by (simp add: js_mul_def round_double_42)
  from same_request_twice [OF n pl a xa b yb] pl show ?thesis
    by (simp only: m simp_thms)
qed

text \<open>
  Claim C9. The entries bound to the model are in the order of the array given to
  \<open>bindTools\<close>: the entry of the addition tool, then the entry of the multiplication
  tool; in general the names of the entries are the names of the tools, in order.
\<close>

theorem catalog_in_array_order:
  "llmWithTools =
     [\<lparr>entry_name = ''addition'', entry_description = ''Add numbers.'',
       properties =
         [\<lparr>property_name = ''a'', property_type = ''number'',
           property_description = Some ''first number''\<rparr>,
          \<lparr>property_name = ''b'', property_type = ''number'',
           property_description = Some ''second number''\<rparr>],
       required = [''a'', ''b'']\<rparr>,
      \<lparr>entry_name = ''multiplication'', entry_description = ''Multiply numbers.'',
       properties =
         [\<lparr>property_name = ''a'', property_type = ''number'',
           property_description = Some ''first number''\<rparr>,
          \<lparr>property_name = ''b'', property_type = ''number'',
           property_description = Some ''second number''\<rparr>],
       required = [''a'', ''b'']\<rparr>]
   \<and> llmWithTools = [entry_of additionTool, entry_of multiplicationTool]
   \<and> map entry_name (bindTools tools) = map name tools"
  by (simp add: llmWithTools_def bindTools_def entry_of_def additionTool_def
      multiplicationTool_def tool_def calculationSchema_def z_object_def z_number_def comp_def)



end
